theory Spec2Isabelle
  imports Main
begin

section \<open>JavaScript values\<close>

text \<open>
  Request bodies, provider replies and bound SQL parameters are JSON data. A number is
  taken to be an integer (result codes, identifiers); an object is its list of
  properties, the first binding of a name being the effective one.
\<close>

datatype jsval =
    JUndefined
  | JNull
  | JBool bool
  | JNum int
  | JStr string
  | JArr "jsval list"
  | JObj "(string \<times> jsval) list"

text \<open>Exceptions: the axios error (with \<open>code\<close> and \<open>response\<close>), \<open>TypeError\<close>
  and the plain \<open>Error\<close> with its message.\<close>

datatype js_exn =
    AxiosError "string option" "(nat \<times> jsval) option" string
  | TypeError string
  | Error string

fun exn_code :: "js_exn \<Rightarrow> string option" where
  "exn_code (AxiosError c r m) = c"
| "exn_code (TypeError m) = None"
| "exn_code (Error m) = None"

fun exn_status :: "js_exn \<Rightarrow> nat option" where
  "exn_status (AxiosError c r m) = map_option fst r"
| "exn_status (TypeError m) = None"
| "exn_status (Error m) = None"

text \<open>\<open>error.response?.data\<close>\<close>

fun exn_data :: "js_exn \<Rightarrow> jsval" where
  "exn_data (AxiosError c r m) = (case r of None \<Rightarrow> JUndefined | Some (s, d) \<Rightarrow> d)"
| "exn_data (TypeError m) = JUndefined"
| "exn_data (Error m) = JUndefined"

fun exn_message :: "js_exn \<Rightarrow> string" where
  "exn_message (AxiosError c r m) = m"
| "exn_message (TypeError m) = m"
| "exn_message (Error m) = m"

text \<open>\<open>!v\<close> is \<open>\<not> truthy v\<close>.\<close>

fun truthy :: "jsval \<Rightarrow> bool" where
  "truthy JUndefined = False"
| "truthy JNull = False"
| "truthy (JBool b) = b"
| "truthy (JNum n) = (n \<noteq> 0)"
| "truthy (JStr s) = (s \<noteq> [])"
| "truthy (JArr xs) = True"
| "truthy (JObj kvs) = True"

fun nullish :: "jsval \<Rightarrow> bool" where
  "nullish JUndefined = True"
| "nullish JNull = True"
| "nullish v = False"

text \<open>A name between single quotation marks, as the engine's messages have it.\<close>

definition quoted :: "string \<Rightarrow> string" where
  "quoted k = [CHR 0x27] @ k @ [CHR 0x27]"

definition js_typename :: "jsval \<Rightarrow> string" where
  "js_typename v = (if v = JNull then ''null'' else ''undefined'')"

text \<open>
  \<open>js_prop v k\<close> is \<open>v.k\<close> on a value that is neither \<open>undefined\<close> nor \<open>null\<close>, for the
  property names the routes read (none of them is a built-in property of a string, a
  number or an array). \<open>js_get\<close> is the plain access, which throws on \<open>undefined\<close> and
  \<open>null\<close>; \<open>js_opt\<close> is \<open>v?.k\<close>.
\<close>

fun js_prop :: "jsval \<Rightarrow> string \<Rightarrow> jsval" where
  "js_prop (JObj kvs) k = (case map_of kvs k of None \<Rightarrow> JUndefined | Some v \<Rightarrow> v)"
| "js_prop v k = JUndefined"

definition js_get :: "jsval \<Rightarrow> string \<Rightarrow> js_exn + jsval" where
  "js_get v k =
     (if nullish v
      then Inl (TypeError (''Cannot read properties of '' @ js_typename v @ '' (reading '' @ quoted k @ '')''))
      else Inr (js_prop v k))"

text \<open>\<open>const { k } = req.body\<close>\<close>

definition js_destructure :: "jsval \<Rightarrow> string \<Rightarrow> js_exn + jsval" where
  "js_destructure v k =
     (if nullish v
      then Inl (TypeError (''Cannot destructure property '' @ quoted k @ '' of 'req.body' as it is '' @
                  js_typename v @ ''.''))
      else Inr (js_prop v k))"

definition js_opt :: "jsval \<Rightarrow> string \<Rightarrow> jsval" where
  "js_opt v k = (if nullish v then JUndefined else js_prop v k)"

text \<open>\<open>a || b\<close>\<close>

definition js_or :: "jsval \<Rightarrow> jsval \<Rightarrow> jsval" where
  "js_or a b = (if truthy a then a else b)"

subsection \<open>Strings\<close>

definition digit :: "char \<Rightarrow> bool" where
  "digit c = (c \<in> set ''0123456789'')"

definition startsWith :: "string \<Rightarrow> string \<Rightarrow> bool" where
  "startsWith s p = (take (length p) s = p)"

text \<open>
  \<open>s.substring(a)\<close> and \<open>s.substring(a, b)\<close>: an index below 0 counts as 0, one beyond the
  length as the length, and the two are swapped when the first is the larger.
\<close>

definition clamp_index :: "string \<Rightarrow> int \<Rightarrow> nat" where
  "clamp_index s i = (if i < 0 then 0 else min (nat i) (length s))"

definition substring :: "string \<Rightarrow> int \<Rightarrow> int \<Rightarrow> string" where
  "substring s a b =
     (let lo = min (clamp_index s a) (clamp_index s b);
          hi = max (clamp_index s a) (clamp_index s b)
      in take (hi - lo) (drop lo s))"

definition substring_from :: "string \<Rightarrow> int \<Rightarrow> string" where
  "substring_from s a = drop (clamp_index s a) s"

subsection \<open>String conversion\<close>

text \<open>\<open>String(v)\<close>, as string concatenation applies it (decimal notation for a number).\<close>

fun show_nat :: "nat \<Rightarrow> string" where
  "show_nat n =
     (if n < 10 then [''0123456789'' ! n]
      else show_nat (n div 10) @ [''0123456789'' ! (n mod 10)])"

definition show_int :: "int \<Rightarrow> string" where
  "show_int i = (if i < 0 then ''-'' @ show_nat (nat (- i)) else show_nat (nat i))"

fun join_comma :: "string list \<Rightarrow> string" where
  "join_comma [] = []"
| "join_comma [s] = s"
| "join_comma (s # t # ss) = s @ '','' @ join_comma (t # ss)"

fun js_toString :: "jsval \<Rightarrow> string" where
  "js_toString JUndefined = ''undefined''"
| "js_toString JNull = ''null''"
| "js_toString (JBool b) = (if b then ''true'' else ''false'')"
| "js_toString (JNum n) = show_int n"
| "js_toString (JStr s) = s"
| "js_toString (JArr xs) = join_comma (map (\<lambda>x. if nullish x then [] else js_toString x) xs)"
| "js_toString (JObj kvs) = ''[object Object]''"

section \<open>Phone normalisation of POST /stkpush\<close>

text \<open>
  \<^verbatim>\<open>
  let formattedPhone = phone.replace(/[^0-9]/g, '');
  if (formattedPhone.startsWith('0')) {
    formattedPhone = '254' + formattedPhone.substring(1);
  } else if (!formattedPhone.startsWith('254')) {
    formattedPhone = '254' + formattedPhone;
  }
  \<close>
\<close>

definition formatPhone :: "string \<Rightarrow> string" where
  "formatPhone phone =
     (let formattedPhone = filter digit phone
      in if startsWith formattedPhone ''0'' then ''254'' @ substring_from formattedPhone 1
         else if \<not> startsWith formattedPhone ''254'' then ''254'' @ formattedPhone
         else formattedPhone)"

text \<open>\<^verbatim>\<open>/^254[0-9]{9}$/.test(formattedPhone)\<close>\<close>

definition validPhoneFormat :: "string \<Rightarrow> bool" where
  "validPhoneFormat s = (length s = 12 \<and> take 3 s = ''254'' \<and> list_all digit (drop 3 s))"

section \<open>Configuration\<close>

text \<open>\<open>process.env\<close>: a variable is unset, or a string; \<open>!process.env[v]\<close> holds for an
  unset variable and for the empty string.\<close>

type_synonym process_env = "string \<Rightarrow> string option"

definition env_truthy :: "string option \<Rightarrow> bool" where
  "env_truthy v = (case v of None \<Rightarrow> False | Some s \<Rightarrow> s \<noteq> [])"

record config_status =
  valid :: bool
  missing :: "string list"
  warnings :: "string list"
  shortcode :: "string option"
  hasValidCredentials :: bool

definition required :: "string list" where
  "required =
     [''MPESA_CONSUMER_KEY'', ''MPESA_CONSUMER_SECRET'', ''MPESA_SHORTCODE'',
      ''MPESA_PASSKEY'', ''MPESA_CALLBACK_URL'']"

definition validateEnvVariables :: "process_env \<Rightarrow> config_status" where
  "validateEnvVariables env =
     (let missing = filter (\<lambda>envVar. \<not> env_truthy (env envVar)) required;
          envWarnings =
            (if \<not> env_truthy (env ''MPESA_CONSUMER_KEY'')
                \<or> env ''MPESA_CONSUMER_KEY'' = Some ''your_consumer_key_here''
             then [''MPESA_CONSUMER_KEY is still set to default placeholder value''] else []) @
            (if \<not> env_truthy (env ''MPESA_PASSKEY'')
                \<or> env ''MPESA_PASSKEY'' = Some ''your_passkey_here''
             then [''MPESA_PASSKEY is still set to default placeholder value''] else [])
      in \<lparr> valid = (\<not> length missing > 0 \<and> \<not> length envWarnings > 0),
           missing = missing,
           warnings = envWarnings,
           shortcode = (if env_truthy (env ''MPESA_SHORTCODE'') then env ''MPESA_SHORTCODE'' else None),
           hasValidCredentials = (length missing = 0 \<and> length envWarnings = 0) \<rparr>)"

text \<open>\<open>MPESA_CONFIG\<close>, read from the same environment when the module loads.\<close>

record mpesa_config =
  consumerKey :: "string option"
  consumerSecret :: "string option"
  businessShortCode :: "string option"
  passkey :: "string option"
  callbackUrl :: "string option"

definition MPESA_CONFIG :: "process_env \<Rightarrow> mpesa_config" where
  "MPESA_CONFIG env =
     \<lparr> consumerKey = env ''MPESA_CONSUMER_KEY'',
       consumerSecret = env ''MPESA_CONSUMER_SECRET'',
       businessShortCode = env ''MPESA_SHORTCODE'',
       passkey = env ''MPESA_PASSKEY'',
       callbackUrl = env ''MPESA_CALLBACK_URL'' \<rparr>"

section \<open>State and surroundings\<close>

text \<open>
  A row of \<open>mpesa_transactions\<close>, each column as the value read back from it (\<open>JNull\<close>
  for NULL). A DATETIME is the clock reading in seconds.
\<close>

record mpesa_transaction =
  row_id :: nat
  merchant_request_id :: jsval
  checkout_request_id :: jsval
  phone :: string
  amount :: jsval
  branch :: jsval
  product :: jsval
  status :: string
  result_code :: jsval
  result_desc :: jsval
  mpesa_receipt :: jsval
  created_at :: nat
  completed_at :: "nat option"

text \<open>
  What leaves the process: the three provider requests (the push with the phone number
  it carries, the query with its checkout identifier) and the socket events with their
  payload.
\<close>

datatype effect =
    AuthGet
  | StkPushPost string
  | StkQueryPost jsval
  | Emit string jsval

text \<open>The module's token cache, the table, and the trace of effects (oldest first).\<close>

record world =
  accessToken :: jsval
  tokenExpiry :: "nat option"
  transactions :: "mpesa_transaction list"
  effects :: "effect list"

definition initial_world :: world where
  "initial_world = \<lparr> accessToken = JNull, tokenExpiry = None, transactions = [], effects = [] \<rparr>"

text \<open>
  What one handler run reads from outside: \<open>Date.now()\<close> at the cache check, the reply
  of the token request (an exception, or \<open>response.data\<close>) and \<open>Date.now()\<close> when it
  has arrived, the reply of the push or query request, SQLite's CURRENT_TIMESTAMP, and
  \<open>Date.now()\<close> when the response is built.
\<close>

record io_env =
  date_now :: nat
  auth_reply :: "js_exn + jsval"
  date_now_auth :: nat
  api_reply :: "js_exn + jsval"
  current_timestamp :: nat
  date_now_end :: nat

text \<open>A handler answers with a status and a JSON body, or its promise rejects.\<close>

datatype outcome = Responded nat jsval | Rejected js_exn

section \<open>Token manager\<close>

text \<open>The \<open>catch\<close> block of \<open>getAccessToken\<close>: every exception is thrown again as an
  \<open>Error\<close>.\<close>

definition token_error :: "js_exn \<Rightarrow> js_exn" where
  "token_error error =
     (if exn_code error = Some ''ECONNREFUSED''
      then Error ''Cannot connect to M-Pesa API. Please check your internet connection.''
      else if exn_status error = Some 401
      then Error ''Invalid M-Pesa credentials. Please check your Consumer Key and Secret.''
      else Error (''Failed to get M-Pesa access token: '' @
             js_toString (js_or (js_opt (exn_data error) ''errorDescription'')
                                (JStr (exn_message error)))))"

definition cache_valid :: "io_env \<Rightarrow> world \<Rightarrow> bool" where
  "cache_valid io w =
     (truthy (accessToken w) \<and>
      (case tokenExpiry w of None \<Rightarrow> False | Some e \<Rightarrow> e \<noteq> 0 \<and> date_now io < e))"

definition getAccessToken :: "mpesa_config \<Rightarrow> io_env \<Rightarrow> world \<Rightarrow> (js_exn + jsval) \<times> world" where
  "getAccessToken cfg io w =
     (if cache_valid io w then (Inr (accessToken w), w)
      else if \<not> env_truthy (consumerKey cfg) \<or> \<not> env_truthy (consumerSecret cfg)
      then (Inl (token_error (Error ''M-Pesa credentials not configured'')), w)
      else
        (let w1 = w\<lparr>effects := effects w @ [AuthGet]\<rparr>
         in case auth_reply io of
              Inl error \<Rightarrow> (Inl (token_error error), w1)
            | Inr data \<Rightarrow>
                (case js_get data ''access_token'' of
                   Inl error \<Rightarrow> (Inl (token_error error), w1)
                 | Inr token \<Rightarrow>
                     (Inr token,
                      w1\<lparr>accessToken := token,
                         tokenExpiry := Some (date_now_auth io + 50 * 60 * 1000)\<rparr>))))"

section \<open>The transaction table\<close>

text \<open>
  The SQLite engine and its driver are not part of the repository. What they make of a
  JavaScript value bound to a statement, on its way into a column of TEXT, INTEGER or
  REAL affinity, is a parameter of the model: the value that is read back from the
  column, \<open>JNull\<close> for NULL. (In SQLite the number 12345 in a TEXT column is the text
  \<open>12345\<close>, the text \<open>50\<close> in a REAL column the number 50, \<open>undefined\<close> is NULL.)
\<close>

record sql_engine =
  as_text :: "jsval \<Rightarrow> jsval"
  as_integer :: "jsval \<Rightarrow> jsval"
  as_real :: "jsval \<Rightarrow> jsval"

text \<open>
  \<^verbatim>\<open>WHERE merchant_request_id = ?\<close> on the TEXT column: the parameter is compared as the
  text the column would hold for it, and \<open>=\<close> is never true of NULL.
\<close>

definition sql_match :: "sql_engine \<Rightarrow> jsval \<Rightarrow> jsval \<Rightarrow> bool" where
  "sql_match db stored v = (as_text db v \<noteq> JNull \<and> stored = as_text db v)"

text \<open>
  The statements the routes run, on the table as a list of rows in insertion order.
  The INSERT fails (its error is logged and nothing is stored) when a NOT NULL column
  would be NULL or a UNIQUE identifier is already present; AUTOINCREMENT gives the next
  row id.
  \<^verbatim>\<open>
  INSERT INTO mpesa_transactions
    (merchant_request_id, checkout_request_id, phone, amount, branch, product, status)
  VALUES (?, ?, ?, ?, ?, ?, 'pending')
  \<close>
\<close>

definition insert_transaction ::
  "sql_engine \<Rightarrow> jsval \<Rightarrow> jsval \<Rightarrow> string \<Rightarrow> jsval \<Rightarrow> jsval \<Rightarrow> jsval \<Rightarrow> nat \<Rightarrow>
   mpesa_transaction list \<Rightarrow> mpesa_transaction list" where
  "insert_transaction db merchantRequestID checkoutRequestID formattedPhone amountV branchV productV now rows =
     (if as_text db merchantRequestID = JNull \<or> as_text db checkoutRequestID = JNull
         \<or> as_real db amountV = JNull
         \<or> list_ex (\<lambda>r. sql_match db (merchant_request_id r) merchantRequestID) rows
         \<or> list_ex (\<lambda>r. sql_match db (checkout_request_id r) checkoutRequestID) rows
      then rows
      else rows @
        [\<lparr> row_id = Suc (fold max (map row_id rows) 0),
           merchant_request_id = as_text db merchantRequestID,
           checkout_request_id = as_text db checkoutRequestID,
           phone = formattedPhone,
           amount = as_real db amountV,
           branch = as_text db branchV,
           product = as_text db productV,
           status = ''pending'',
           result_code = JNull,
           result_desc = JNull,
           mpesa_receipt = JNull,
           created_at = now,
           completed_at = None \<rparr>])"

text \<open>
  The callback's statement:
  \<^verbatim>\<open>
  UPDATE mpesa_transactions
  SET status = ?, result_code = ?, result_desc = ?, mpesa_receipt = ?,
      completed_at = CURRENT_TIMESTAMP
  WHERE merchant_request_id = ?
  [resultCode === 0 ? 'completed' : 'failed', resultCode, resultDesc,
   mpesaReceiptNumber, merchantRequestID]
  \<close>
\<close>

definition callback_update ::
  "sql_engine \<Rightarrow> jsval \<Rightarrow> jsval \<Rightarrow> jsval \<Rightarrow> jsval \<Rightarrow> nat \<Rightarrow>
   mpesa_transaction list \<Rightarrow> mpesa_transaction list" where
  "callback_update db resultCode resultDesc mpesaReceiptNumber merchantRequestID now rows =
     map (\<lambda>r. if sql_match db (merchant_request_id r) merchantRequestID
               then r\<lparr>status := (if resultCode = JNum 0 then ''completed'' else ''failed''),
                      result_code := as_integer db resultCode,
                      result_desc := as_text db resultDesc,
                      mpesa_receipt := as_text db mpesaReceiptNumber,
                      completed_at := Some now\<rparr>
               else r) rows"

text \<open>
  The poll's statement:
  \<^verbatim>\<open>
  UPDATE mpesa_transactions
  SET status = ?, result_code = ?, result_desc = ?, completed_at = CURRENT_TIMESTAMP
  WHERE merchant_request_id = ?
  [queryResponse.ResultCode === 0 ? 'completed' : 'failed', queryResponse.ResultCode,
   queryResponse.ResultDesc, merchantRequestID]
  \<close>
\<close>

definition query_update ::
  "sql_engine \<Rightarrow> jsval \<Rightarrow> jsval \<Rightarrow> jsval \<Rightarrow> nat \<Rightarrow>
   mpesa_transaction list \<Rightarrow> mpesa_transaction list" where
  "query_update db resultCode resultDesc merchantRequestID now rows =
     map (\<lambda>r. if sql_match db (merchant_request_id r) merchantRequestID
               then r\<lparr>status := (if resultCode = JNum 0 then ''completed'' else ''failed''),
                      result_code := as_integer db resultCode,
                      result_desc := as_text db resultDesc,
                      completed_at := Some now\<rparr>
               else r) rows"

text \<open>\<^verbatim>\<open>SELECT * FROM mpesa_transactions WHERE merchant_request_id = ?\<close> through \<open>db.get\<close>:
  the first matching row.\<close>

definition select_transaction ::
  "sql_engine \<Rightarrow> jsval \<Rightarrow> mpesa_transaction list \<Rightarrow> mpesa_transaction option" where
  "select_transaction db merchantRequestID rows =
     find (\<lambda>r. sql_match db (merchant_request_id r) merchantRequestID) rows"

section \<open>GET /config-status and GET /test-connection\<close>

text \<open>The routes below run behind \<open>authenticateToken\<close>; they are modelled for a request
  that has passed it.\<close>

definition config_status_route :: "process_env \<Rightarrow> outcome" where
  "config_status_route env =
     (let mpesaConfig = validateEnvVariables env
      in Responded 200 (JObj
           [(''configured'', JBool (valid mpesaConfig)),
            (''hasCredentials'', JBool (hasValidCredentials mpesaConfig)),
            (''missingVariables'', JArr (map JStr (missing mpesaConfig))),
            (''warnings'', JArr (map JStr (warnings mpesaConfig))),
            (''shortcode'', (case shortcode mpesaConfig of None \<Rightarrow> JNull | Some c \<Rightarrow> JStr c)),
            (''setupInstructions'', JStr ''See MPESA_SETUP.md for detailed instructions'')]))"

definition test_connection :: "process_env \<Rightarrow> io_env \<Rightarrow> world \<Rightarrow> outcome \<times> world" where
  "test_connection env io w =
     (let mpesaConfig = validateEnvVariables env
      in if \<not> hasValidCredentials mpesaConfig
         then (Responded 500 (JObj
                 [(''success'', JBool False),
                  (''message'', JStr ''M-Pesa credentials not configured''),
                  (''missingVariables'', JArr (map JStr (missing mpesaConfig))),
                  (''warnings'', JArr (map JStr (warnings mpesaConfig)))]), w)
         else
           (case getAccessToken (MPESA_CONFIG env) io w of
              (Inl error, w1) \<Rightarrow>
                (Responded 500 (JObj
                   [(''success'', JBool False),
                    (''message'', JStr (exn_message error)),
                    (''hint'', JStr ''Check your .env configuration and internet connection'')]), w1)
            | (Inr token, w1) \<Rightarrow>
                (Responded 200 (JObj
                   [(''success'', JBool True),
                    (''message'', JStr ''M-Pesa API connection successful''),
                    (''tokenReceived'', JBool True),
                    (''expiresIn'',
                       JNum (case tokenExpiry w1 of
                               None \<Rightarrow> 0
                             | Some e \<Rightarrow> if e = 0 then 0
                                 else (int e - int (date_now_end io) + 500) div 1000))]), w1)))"

section \<open>POST /stkpush\<close>

text \<open>The \<open>catch\<close> block of the route.\<close>

definition stkpush_catch :: "js_exn \<Rightarrow> outcome" where
  "stkpush_catch error =
     (let errorData = exn_data error;
          errorMessage0 =
            (if truthy (js_opt errorData ''errorMessage'') then js_opt errorData ''errorMessage''
             else JStr ''Failed to initiate STK Push'');
          errorCode0 =
            (if \<not> truthy (js_opt errorData ''errorMessage'') \<and> truthy (js_opt errorData ''errorCode'')
             then js_opt errorData ''errorCode''
             else JStr ''UNKNOWN_ERROR'');
          (errorMessage, errorCode) =
            (if exn_code error = Some ''ECONNREFUSED''
             then (JStr ''Cannot connect to M-Pesa API. Please check your internet connection.'',
                   JStr ''CONNECTION_ERROR'')
             else if exn_code error = Some ''ETIMEDOUT'' \<or> exn_code error = Some ''ECONNABORTED''
             then (JStr ''M-Pesa API request timed out. Please try again.'', JStr ''TIMEOUT'')
             else if exn_status error = Some 500
             then (JStr ''M-Pesa API returned an internal error. Please try again later.'',
                   JStr ''MPESA_SERVER_ERROR'')
             else if exn_status error = Some 401
             then (JStr ''Invalid M-Pesa credentials. Please check your configuration.'',
                   JStr ''AUTH_ERROR'')
             else (errorMessage0, errorCode0))
      in Responded 500 (JObj
           [(''error'', errorMessage),
            (''errorCode'', errorCode),
            (''details'', js_or errorData (JStr (exn_message error))),
            (''hint'', JStr ''See MPESA_SETUP.md for troubleshooting guide'')]))"

text \<open>The \<open>try\<close> block: token, provider request, INSERT, socket event, response.\<close>

definition stkpush_try ::
  "sql_engine \<Rightarrow> process_env \<Rightarrow> io_env \<Rightarrow> string \<Rightarrow> jsval \<Rightarrow> jsval \<Rightarrow> jsval \<Rightarrow> world \<Rightarrow>
   outcome \<times> world" where
  "stkpush_try db env io formattedPhone amountV branchV productV w =
     (case getAccessToken (MPESA_CONFIG env) io w of
        (Inl error, w1) \<Rightarrow> (stkpush_catch error, w1)
      | (Inr token, w1) \<Rightarrow>
          (let w2 = w1\<lparr>effects := effects w1 @ [StkPushPost formattedPhone]\<rparr>
           in case api_reply io of
                Inl error \<Rightarrow> (stkpush_catch error, w2)
              | Inr stkResponse \<Rightarrow>
                  (case js_get stkResponse ''MerchantRequestID'' of
                     Inl error \<Rightarrow> (stkpush_catch error, w2)
                   | Inr merchantRequestID \<Rightarrow>
                       (let checkoutRequestID = js_prop stkResponse ''CheckoutRequestID'';
                            w3 = w2\<lparr>transactions :=
                                   insert_transaction db merchantRequestID checkoutRequestID
                                     formattedPhone amountV branchV productV (current_timestamp io)
                                     (transactions w2)\<rparr>;
                            w4 = w3\<lparr>effects := effects w3 @
                                   [Emit ''mpesa-initiated'' (JObj
                                      [(''phone'', JStr formattedPhone),
                                       (''amount'', amountV),
                                       (''branch'', branchV),
                                       (''product'', productV),
                                       (''merchantRequestId'', merchantRequestID)])]\<rparr>
                        in (Responded 200 (JObj
                              [(''success'', JBool True),
                               (''message'', JStr ''STK Push initiated successfully. Please check your phone.''),
                               (''data'', JObj
                                  [(''merchantRequestID'', merchantRequestID),
                                   (''checkoutRequestID'', checkoutRequestID),
                                   (''responseCode'', js_prop stkResponse ''ResponseCode''),
                                   (''responseDescription'', js_prop stkResponse ''ResponseDescription''),
                                   (''customerMessage'', js_prop stkResponse ''CustomerMessage'')])]),
                            w4)))))"

text \<open>
  The route. The checks before the \<open>try\<close> block are outside it: destructuring a missing
  body, or \<open>phone.replace\<close> on a value that is not a string, rejects the handler's promise.
\<close>

definition stkpush ::
  "sql_engine \<Rightarrow> process_env \<Rightarrow> io_env \<Rightarrow> jsval \<Rightarrow> world \<Rightarrow> outcome \<times> world" where
  "stkpush db env io body w =
     (let mpesaConfig = validateEnvVariables env
      in if \<not> valid mpesaConfig
         then (Responded 500 (JObj
                 [(''error'', JStr ''M-Pesa configuration is incomplete''),
                  (''message'', JStr ''Please configure your M-Pesa credentials in the .env file''),
                  (''missingVariables'', JArr (map JStr (missing mpesaConfig))),
                  (''warnings'', JArr (map JStr (warnings mpesaConfig))),
                  (''setupGuide'', JStr ''See MPESA_SETUP.md for detailed instructions'')]), w)
         else
           (case js_destructure body ''phone'' of
              Inl error \<Rightarrow> (Rejected error, w)
            | Inr phoneV \<Rightarrow>
                (let amountV = js_prop body ''amount'';
                     branchV = js_prop body ''branch'';
                     productV = js_prop body ''product''
                 in if \<not> truthy phoneV \<or> \<not> truthy amountV
                    then (Responded 400 (JObj [(''error'', JStr ''Phone and amount are required'')]), w)
                    else
                      (case phoneV of
                         JStr p \<Rightarrow>
                           (let formattedPhone = formatPhone p
                            in if \<not> validPhoneFormat formattedPhone
                               then (Responded 400 (JObj
                                       [(''error'', JStr ''Invalid phone number format''),
                                        (''message'', JStr ''Phone must be in format 254XXXXXXXXX (12 digits starting with 254)'')]),
                                     w)
                               else stkpush_try db env io formattedPhone amountV branchV productV w)
                       | _ \<Rightarrow> (Rejected (TypeError ''phone.replace is not a function''), w)))))"

section \<open>POST /stkquery\<close>

definition stkquery_catch :: "js_exn \<Rightarrow> outcome" where
  "stkquery_catch error =
     Responded 500 (JObj
       [(''error'', JStr ''Failed to query transaction status''),
        (''details'', js_or (exn_data error) (JStr (exn_message error)))])"

text \<open>
  The \<open>try\<close> block. The first property read from the provider's reply is \<open>ResultCode\<close> in
  the UPDATE's parameters when a merchant request identifier was given, and
  \<open>CheckoutRequestID\<close> in the response otherwise; on a reply without data that read
  throws.
\<close>

definition stkquery_try ::
  "sql_engine \<Rightarrow> process_env \<Rightarrow> io_env \<Rightarrow> jsval \<Rightarrow> jsval \<Rightarrow> world \<Rightarrow> outcome \<times> world" where
  "stkquery_try db env io checkoutRequestID merchantRequestID w =
     (case getAccessToken (MPESA_CONFIG env) io w of
        (Inl error, w1) \<Rightarrow> (stkquery_catch error, w1)
      | (Inr token, w1) \<Rightarrow>
          (let w2 = w1\<lparr>effects := effects w1 @ [StkQueryPost checkoutRequestID]\<rparr>
           in case api_reply io of
                Inl error \<Rightarrow> (stkquery_catch error, w2)
              | Inr queryResponse \<Rightarrow>
                  (case (if truthy merchantRequestID then js_get queryResponse ''ResultCode''
                         else js_get queryResponse ''CheckoutRequestID'') of
                     Inl error \<Rightarrow> (stkquery_catch error, w2)
                   | Inr first \<Rightarrow>
                       (let resultCode = js_prop queryResponse ''ResultCode'';
                            w3 = (if truthy merchantRequestID
                                  then w2\<lparr>transactions :=
                                         query_update db resultCode (js_prop queryResponse ''ResultDesc'')
                                           merchantRequestID (current_timestamp io) (transactions w2)\<rparr>
                                  else w2)
                        in (Responded 200 (JObj
                              [(''success'', JBool True),
                               (''data'', JObj
                                  [(''checkoutRequestID'', js_prop queryResponse ''CheckoutRequestID''),
                                   (''resultCode'', resultCode),
                                   (''resultDesc'', js_prop queryResponse ''ResultDesc''),
                                   (''status'', JStr (if resultCode = JNum 0 then ''success'' else ''failed''))])]),
                            w3)))))"

definition stkquery ::
  "sql_engine \<Rightarrow> process_env \<Rightarrow> io_env \<Rightarrow> jsval \<Rightarrow> world \<Rightarrow> outcome \<times> world" where
  "stkquery db env io body w =
     (let mpesaConfig = validateEnvVariables env
      in if \<not> valid mpesaConfig
         then (Responded 500 (JObj
                 [(''error'', JStr ''M-Pesa configuration is incomplete''),
                  (''message'', JStr ''Please configure your M-Pesa credentials in the .env file'')]), w)
         else
           (case js_destructure body ''checkoutRequestID'' of
              Inl error \<Rightarrow> (Rejected error, w)
            | Inr checkoutRequestID \<Rightarrow>
                (let merchantRequestID = js_prop body ''merchantRequestID''
                 in if \<not> truthy checkoutRequestID
                    then (Responded 400 (JObj [(''error'', JStr ''CheckoutRequestID is required'')]), w)
                    else stkquery_try db env io checkoutRequestID merchantRequestID w)))"

section \<open>POST /callback\<close>

text \<open>\<^verbatim>\<open>metaData.find(item => item.Name === name)?.Value\<close> on an array: reading \<open>Name\<close>
  of a \<open>null\<close> element throws; no match gives \<open>undefined\<close>.\<close>

fun find_value :: "string \<Rightarrow> jsval list \<Rightarrow> js_exn + jsval" where
  "find_value name [] = Inr JUndefined"
| "find_value name (item # items) =
     (case js_get item ''Name'' of
        Inl error \<Rightarrow> Inl error
      | Inr n \<Rightarrow> if n = JStr name then Inr (js_prop item ''Value'') else find_value name items)"

definition success_ack :: jsval where
  "success_ack = JObj [(''ResultCode'', JNum 0), (''ResultDesc'', JStr ''Success'')]"

text \<open>
  The \<open>try\<close> block up to the response: an exception, or the state after the UPDATE and
  the socket events. Whatever throws does so before the UPDATE.
\<close>

definition callback_try :: "sql_engine \<Rightarrow> io_env \<Rightarrow> jsval \<Rightarrow> world \<Rightarrow> js_exn + world" where
  "callback_try db io Body w =
     (if truthy Body \<and> truthy (js_prop Body ''stkCallback'')
      then
        (let callback = js_prop Body ''stkCallback'';
             merchantRequestID = js_prop callback ''MerchantRequestID'';
             checkoutRequestID = js_prop callback ''CheckoutRequestID'';
             resultCode = js_prop callback ''ResultCode'';
             resultDesc = js_prop callback ''ResultDesc'';
             metaData = js_or (js_opt (js_prop callback ''CallbackMetadata'') ''Item'') (JArr [])
         in case metaData of
              JArr items \<Rightarrow>
                (case find_value ''Amount'' items of
                   Inl error \<Rightarrow> Inl error
                 | Inr amountV \<Rightarrow>
                (case find_value ''MpesaReceiptNumber'' items of
                   Inl error \<Rightarrow> Inl error
                 | Inr mpesaReceiptNumber \<Rightarrow>
                (case find_value ''TransactionDate'' items of
                   Inl error \<Rightarrow> Inl error
                 | Inr transactionDate \<Rightarrow>
                (case find_value ''PhoneNumber'' items of
                   Inl error \<Rightarrow> Inl error
                 | Inr phoneNumber \<Rightarrow>
                     (let w1 = w\<lparr>transactions :=
                                 callback_update db resultCode resultDesc mpesaReceiptNumber
                                   merchantRequestID (current_timestamp io) (transactions w)\<rparr>;
                          w2 = w1\<lparr>effects := effects w1 @
                                 [Emit ''mpesa-callback'' (JObj
                                    [(''merchantRequestID'', merchantRequestID),
                                     (''checkoutRequestID'', checkoutRequestID),
                                     (''status'', JStr (if resultCode = JNum 0 then ''success'' else ''failed'')),
                                     (''resultDesc'', resultDesc),
                                     (''amount'', amountV),
                                     (''mpesaReceiptNumber'', mpesaReceiptNumber)])]\<rparr>
                      in if resultCode = JNum 0
                         then (case select_transaction db merchantRequestID (transactions w2) of
                                 None \<Rightarrow> Inr w2
                               | Some transaction \<Rightarrow>
                                   Inr (w2\<lparr>effects := effects w2 @
                                          [Emit ''sale-completed'' (JObj
                                             [(''branch'', branch transaction),
                                              (''product'', product transaction),
                                              (''quantity'', JNum 1),
                                              (''total_amount'', amount transaction),
                                              (''paymentMethod'', JStr ''mpesa''),
                                              (''mpesaReceipt'', mpesaReceiptNumber)])]\<rparr>))
                         else Inr w2)))))
            | _ \<Rightarrow> Inl (TypeError ''metaData.find is not a function''))
      else Inr w)"

text \<open>
  The route: \<open>const { Body } = req.body\<close> stands before the \<open>try\<close>; both the end of the
  \<open>try\<close> block and the \<open>catch\<close> block send the acknowledgment.
\<close>

definition callback :: "sql_engine \<Rightarrow> io_env \<Rightarrow> jsval \<Rightarrow> world \<Rightarrow> outcome \<times> world" where
  "callback db io body w =
     (case js_destructure body ''Body'' of
        Inl error \<Rightarrow> (Rejected error, w)
      | Inr Body \<Rightarrow>
          (case callback_try db io Body w of
             Inr w' \<Rightarrow> (Responded 200 success_ack, w')
           | Inl error \<Rightarrow> (Responded 200 success_ack, w)))"

section \<open>GET /transactions\<close>

text \<open>The function mapped over the rows (a DATETIME is given as its second).\<close>

definition transaction_json :: "mpesa_transaction \<Rightarrow> jsval" where
  "transaction_json row =
     JObj
       [(''id'', JNum (int (row_id row))),
        (''phone'', JStr (substring (phone row) 0 6 @ ''****'' @
                          substring_from (phone row) (int (length (phone row)) - 2))),
        (''amount'', amount row),
        (''branch'', branch row),
        (''product'', product row),
        (''status'', JStr (status row)),
        (''mpesaReceipt'', mpesa_receipt row),
        (''createdAt'', JNum (int (created_at row))),
        (''completedAt'', (case completed_at row of None \<Rightarrow> JNull | Some t \<Rightarrow> JNum (int t)))]"

text \<open>\<^verbatim>\<open>SELECT * FROM mpesa_transactions ORDER BY created_at DESC LIMIT 50\<close>: the latest
  second first, rows of one second in the order of their insertion.\<close>

definition select_recent :: "mpesa_transaction list \<Rightarrow> mpesa_transaction list" where
  "select_recent rows = take 50 (sort_key (\<lambda>r. - int (created_at r)) rows)"

text \<open>The route, for the \<open>err\<close> that \<open>db.all\<close> hands to its callback (\<open>None\<close> when the query
  has succeeded).\<close>

definition get_transactions :: "js_exn option \<Rightarrow> world \<Rightarrow> outcome" where
  "get_transactions err w =
     (case err of
        Some error \<Rightarrow> Responded 500 (JObj [(''error'', JStr ''Failed to fetch transactions'')])
      | None \<Rightarrow> Responded 200 (JArr (map transaction_json (select_recent (transactions w)))))"

section \<open>The states the routes can reach\<close>

text \<open>
  From the state at start-up, by any run of a route that writes the token cache or the
  table, with any request body and any surroundings. No other statement of the
  repository touches \<open>mpesa_transactions\<close>.
\<close>

inductive reachable :: "sql_engine \<Rightarrow> process_env \<Rightarrow> world \<Rightarrow> bool"
  for db :: sql_engine and env :: process_env where
  start: "reachable db env initial_world"
| test: "reachable db env w \<Longrightarrow> reachable db env (snd (test_connection env io w))"
| push: "reachable db env w \<Longrightarrow> reachable db env (snd (stkpush db env io body w))"
| poll: "reachable db env w \<Longrightarrow> reachable db env (snd (stkquery db env io body w))"
| notify: "reachable db env w \<Longrightarrow> reachable db env (snd (callback db io body w))"

section \<open>Example inputs\<close>

text \<open>
  An engine for the examples. They bind strings to TEXT columns, integers to INTEGER and
  REAL columns, and \<open>undefined\<close>; on these it does what SQLite does: the string and the
  integer are read back as they are, \<open>undefined\<close> is NULL. The theorems below are for
  every engine.
\<close>

definition example_engine :: sql_engine where
  "example_engine =
     \<lparr> as_text = (\<lambda>v. case v of
                      JUndefined \<Rightarrow> JNull
                    | JNull \<Rightarrow> JNull
                    | JStr t \<Rightarrow> JStr t
                    | JBool b \<Rightarrow> JStr (if b then ''1'' else ''0'')
                    | _ \<Rightarrow> JStr (js_toString v)),
       as_integer = (\<lambda>v. case v of
                      JUndefined \<Rightarrow> JNull
                    | JBool b \<Rightarrow> JNum (if b then 1 else 0)
                    | _ \<Rightarrow> v),
       as_real = (\<lambda>v. case v of
                      JUndefined \<Rightarrow> JNull
                    | JBool b \<Rightarrow> JNum (if b then 1 else 0)
                    | _ \<Rightarrow> v) \<rparr>"

text \<open>A complete configuration, one run's surroundings, and the request of the spec's
  end-to-end scenario (amount 50, branch Nairobi, product Coke) for a given phone.\<close>

definition example_env :: process_env where
  "example_env =
     [''MPESA_CONSUMER_KEY'' \<mapsto> ''key'', ''MPESA_CONSUMER_SECRET'' \<mapsto> ''secret'',
      ''MPESA_SHORTCODE'' \<mapsto> ''174379'', ''MPESA_PASSKEY'' \<mapsto> ''passkey'',
      ''MPESA_CALLBACK_URL'' \<mapsto> ''https://shop.example/api/mpesa/callback'']"

definition example_io :: io_env where
  "example_io =
     \<lparr> date_now = 1000,
       auth_reply = Inr (JObj [(''access_token'', JStr ''tok'')]),
       date_now_auth = 1200,
       api_reply = Inr (JObj [(''MerchantRequestID'', JStr ''m1''), (''CheckoutRequestID'', JStr ''c1'')]),
       current_timestamp = 1,
       date_now_end = 1300 \<rparr>"

definition example_push :: "string \<Rightarrow> jsval" where
  "example_push p =
     JObj [(''phone'', JStr p), (''amount'', JNum 50), (''branch'', JStr ''Nairobi''), (''product'', JStr ''Coke'')]"

text \<open>A callback for the merchant request \<open>m\<close> with the given result code and the
  metadata of the scenario; one whose metadata list holds \<open>null\<close>.\<close>

definition example_callback :: "string \<Rightarrow> int \<Rightarrow> jsval" where
  "example_callback m rc =
     JObj [(''Body'', JObj [(''stkCallback'', JObj
        [(''MerchantRequestID'', JStr m),
         (''CheckoutRequestID'', JStr ''c1''),
         (''ResultCode'', JNum rc),
         (''ResultDesc'', JStr ''The service request is processed successfully.''),
         (''CallbackMetadata'', JObj [(''Item'', JArr
            [JObj [(''Name'', JStr ''Amount''), (''Value'', JNum 50)],
             JObj [(''Name'', JStr ''MpesaReceiptNumber''), (''Value'', JStr ''ABC123'')]])])])])]"

definition malformed_callback :: jsval where
  "malformed_callback =
     JObj [(''Body'', JObj [(''stkCallback'', JObj
        [(''MerchantRequestID'', JStr ''m1''), (''ResultCode'', JNum 0),
         (''CallbackMetadata'', JObj [(''Item'', JArr [JNull])])])])]"

text \<open>The state after the push of the scenario, and after its successful callback at
  second 5.\<close>

definition pushed_world :: world where
  "pushed_world = snd (stkpush example_engine example_env example_io (example_push ''0712345678'') initial_world)"

definition completed_world :: world where
  "completed_world =
     snd (callback example_engine (example_io\<lparr>current_timestamp := 5\<rparr>) (example_callback ''m1'' 0)
            pushed_world)"

text \<open>A poll for the same merchant request, answered by the provider with the result
  code 1032 (cancelled by the user), at second 7.\<close>

definition example_query :: jsval where
  "example_query = JObj [(''checkoutRequestID'', JStr ''c1''), (''merchantRequestID'', JStr ''m1'')]"

definition example_query_io :: io_env where
  "example_query_io =
     \<lparr> date_now = 2000,
       auth_reply = Inl (AxiosError (Some ''ECONNREFUSED'') None ''connect ECONNREFUSED''),
       date_now_auth = 2000,
       api_reply = Inr (JObj [(''CheckoutRequestID'', JStr ''c1''), (''ResultCode'', JNum 1032),
                              (''ResultDesc'', JStr ''Request cancelled by user'')]),
       current_timestamp = 7,
       date_now_end = 2100 \<rparr>"

section \<open>Properties\<close>

subsection \<open>Basic facts\<close>


lemma digit_literals: "digit CHR ''0''" "digit CHR ''2''" "digit CHR ''5''" "digit CHR ''4''"
  by (simp_all add: digit_def)

lemma js_get_defined: "\<not> nullish v \<Longrightarrow> js_get v k = Inr (js_prop v k)"
  by (simp add: js_get_def)

lemma js_destructure_defined: "\<not> nullish v \<Longrightarrow> js_destructure v k = Inr (js_prop v k)"
  by (simp add: js_destructure_def)

lemma js_prop_JStr_defined: "js_prop v k = JStr p \<Longrightarrow> \<not> nullish v"
  by (cases v) auto

lemma example_env_valid: "valid (validateEnvVariables example_env)"
  by (simp add: validateEnvVariables_def example_env_def required_def env_truthy_def)

lemma missing_eq: "missing (validateEnvVariables env) = filter (\<lambda>v. \<not> env_truthy (env v)) required"
  by (simp add: validateEnvVariables_def Let_def)

lemma unset_not_valid:
  assumes "v \<in> set required" "\<not> env_truthy (env v)"
  shows "\<not> valid (validateEnvVariables env)" "\<not> hasValidCredentials (validateEnvVariables env)"
proof -
  have "filter (\<lambda>v. \<not> env_truthy (env v)) required \<noteq> []"
    using assms by (auto simp: filter_empty_conv)
  then show "\<not> valid (validateEnvVariables env)" "\<not> hasValidCredentials (validateEnvVariables env)"
    by (simp_all add: validateEnvVariables_def Let_def)
qed

lemma pushed_world_eq:
  "pushed_world =
     \<lparr> accessToken = JStr ''tok'', tokenExpiry = Some 3001200,
       transactions =
         [\<lparr> row_id = 1, merchant_request_id = JStr ''m1'', checkout_request_id = JStr ''c1'',
            phone = ''254712345678'', amount = JNum 50, branch = JStr ''Nairobi'',
            product = JStr ''Coke'', status = ''pending'', result_code = JNull,
            result_desc = JNull, mpesa_receipt = JNull, created_at = 1, completed_at = None \<rparr>],
       effects =
         [AuthGet, StkPushPost ''254712345678'',
          Emit ''mpesa-initiated'' (JObj
            [(''phone'', JStr ''254712345678''), (''amount'', JNum 50), (''branch'', JStr ''Nairobi''),
             (''product'', JStr ''Coke''), (''merchantRequestId'', JStr ''m1'')])] \<rparr>"
  by (simp add: pushed_world_def stkpush_def stkpush_try_def getAccessToken_def cache_valid_def
      initial_world_def example_io_def example_env_def example_push_def validateEnvVariables_def
      required_def env_truthy_def MPESA_CONFIG_def js_get_def js_destructure_def js_typename_def quoted_def formatPhone_def digit_def
      startsWith_def substring_from_def clamp_index_def validPhoneFormat_def
      insert_transaction_def sql_match_def example_engine_def Let_def)

lemma completed_world_rows:
  "transactions completed_world =
     [\<lparr> row_id = 1, merchant_request_id = JStr ''m1'', checkout_request_id = JStr ''c1'',
        phone = ''254712345678'', amount = JNum 50, branch = JStr ''Nairobi'',
        product = JStr ''Coke'', status = ''completed'', result_code = JNum 0,
        result_desc = JStr ''The service request is processed successfully.'',
        mpesa_receipt = JStr ''ABC123'', created_at = 1, completed_at = Some 5 \<rparr>]"
  by (simp add: completed_world_def pushed_world_eq callback_def callback_try_def
      example_callback_def js_get_def js_destructure_def js_typename_def quoted_def js_or_def js_opt_def callback_update_def sql_match_def
      example_engine_def select_transaction_def Let_def)

lemma getAccessToken_transactions: "transactions (snd (getAccessToken cfg io w)) = transactions w"
  by (simp add: getAccessToken_def Let_def split: sum.splits)

lemma test_connection_transactions: "transactions (snd (test_connection env io w)) = transactions w"
proof -
  obtain r w1 where g: "getAccessToken (MPESA_CONFIG env) io w = (r, w1)"
    by (cases "getAccessToken (MPESA_CONFIG env) io w")
  have t: "transactions w1 = transactions w"
    using getAccessToken_transactions [of "MPESA_CONFIG env" io w] g by simp
  show ?thesis by (simp add: test_connection_def Let_def g t split: sum.splits)
qed

subsection \<open>Phone normalisation\<close>




subsection \<open>Validation before any side effect\<close>

text \<open>
  C2, as the route has it. For a phone string whose normalisation (every character
  that is not a digit deleted, then the prefix rule) is not \<open>254\<close> followed by nine
  digits, POST /stkpush answers with an error and leaves the state as it was: no token
  request, no provider request, no row. The answer is the 500 configuration error when
  the configuration is invalid, else 400 "Phone and amount are required" for an empty
  phone or a missing amount, else 400 "Invalid phone number format".
\<close>

theorem stkpush_invalid_phone:
  assumes ph: "js_prop body ''phone'' = JStr p"
    and inv: "\<not> validPhoneFormat (formatPhone p)"
  shows "stkpush db env io body w =
     (if \<not> valid (validateEnvVariables env)
      then (Responded 500 (JObj
              [(''error'', JStr ''M-Pesa configuration is incomplete''),
               (''message'', JStr ''Please configure your M-Pesa credentials in the .env file''),
               (''missingVariables'', JArr (map JStr (missing (validateEnvVariables env)))),
               (''warnings'', JArr (map JStr (warnings (validateEnvVariables env)))),
               (''setupGuide'', JStr ''See MPESA_SETUP.md for detailed instructions'')]), w)
      else if p = [] \<or> \<not> truthy (js_prop body ''amount'')
      then (Responded 400 (JObj [(''error'', JStr ''Phone and amount are required'')]), w)
      else (Responded 400 (JObj
              [(''error'', JStr ''Invalid phone number format''),
               (''message'', JStr ''Phone must be in format 254XXXXXXXXX (12 digits starting with 254)'')]), w))"
proof -
  have "js_destructure body ''phone'' = Inr (JStr p)"
    using ph js_prop_JStr_defined [OF ph] by (simp add: js_destructure_defined)
  then show ?thesis using inv by (simp add: stkpush_def Let_def)
qed

theorem stkpush_invalid_phone_witness:
  "stkpush example_engine example_env example_io (example_push ''12345'') initial_world =
     (Responded 400 (JObj
        [(''error'', JStr ''Invalid phone number format''),
         (''message'', JStr ''Phone must be in format 254XXXXXXXXX (12 digits starting with 254)'')]),
      initial_world)"
  using stkpush_invalid_phone [where body = "example_push ''12345''" and p = "''12345''"
      and db = example_engine and env = example_env and io = example_io and w = initial_world]
    example_env_valid
  by (simp add: example_push_def formatPhone_def validPhoneFormat_def digit_def startsWith_def)

text \<open>
  A phone that contains characters other than digits is not rejected for that: the
  hyphens of \<open>0712-345-678\<close> are deleted, the token and the push are requested and the
  row is stored.
\<close>

theorem stkpush_nondigit_accepted:
  "\<not> list_all digit ''0712-345-678''
   \<and> fst (stkpush example_engine example_env example_io (example_push ''0712-345-678'') initial_world) =
       Responded 200 (JObj
         [(''success'', JBool True),
          (''message'', JStr ''STK Push initiated successfully. Please check your phone.''),
          (''data'', JObj
             [(''merchantRequestID'', JStr ''m1''),
              (''checkoutRequestID'', JStr ''c1''),
              (''responseCode'', JUndefined),
              (''responseDescription'', JUndefined),
              (''customerMessage'', JUndefined)])])
   \<and> take 2 (effects (snd (stkpush example_engine example_env example_io (example_push ''0712-345-678'') initial_world))) =
       [AuthGet, StkPushPost ''254712345678'']
   \<and> map phone (transactions (snd (stkpush example_engine example_env example_io (example_push ''0712-345-678'') initial_world))) =
       [''254712345678'']"
  by (simp add: stkpush_def stkpush_try_def getAccessToken_def cache_valid_def initial_world_def
      example_io_def example_env_def example_push_def validateEnvVariables_def required_def
      env_truthy_def MPESA_CONFIG_def js_get_def js_destructure_def js_typename_def quoted_def formatPhone_def digit_def startsWith_def
      substring_from_def clamp_index_def validPhoneFormat_def insert_transaction_def
      sql_match_def example_engine_def Let_def)

text \<open>
  C8. When a required variable is unset (or empty), GET /test-connection answers 500
  "M-Pesa credentials not configured" with \<open>missingVariables\<close> the required names that
  are unset, the unset one among them, and POST /stkpush answers 500 "M-Pesa
  configuration is incomplete" with the same names; both leave the state as it was, so
  no request goes to the provider. GET /config-status reports \<open>configured: false\<close> with
  the same names.
\<close>

theorem unset_credentials_no_network:
  assumes "v \<in> set required" and "\<not> env_truthy (env v)"
  shows "test_connection env io w =
           (Responded 500 (JObj
              [(''success'', JBool False),
               (''message'', JStr ''M-Pesa credentials not configured''),
               (''missingVariables'', JArr (map JStr (filter (\<lambda>n. \<not> env_truthy (env n)) required))),
               (''warnings'', JArr (map JStr (warnings (validateEnvVariables env))))]), w)
       \<and> v \<in> set (filter (\<lambda>n. \<not> env_truthy (env n)) required)
       \<and> stkpush db env io body w =
           (Responded 500 (JObj
              [(''error'', JStr ''M-Pesa configuration is incomplete''),
               (''message'', JStr ''Please configure your M-Pesa credentials in the .env file''),
               (''missingVariables'', JArr (map JStr (filter (\<lambda>n. \<not> env_truthy (env n)) required))),
               (''warnings'', JArr (map JStr (warnings (validateEnvVariables env)))),
               (''setupGuide'', JStr ''See MPESA_SETUP.md for detailed instructions'')]), w)
       \<and> config_status_route env =
           Responded 200 (JObj
              [(''configured'', JBool False),
               (''hasCredentials'', JBool False),
               (''missingVariables'', JArr (map JStr (filter (\<lambda>n. \<not> env_truthy (env n)) required))),
               (''warnings'', JArr (map JStr (warnings (validateEnvVariables env)))),
               (''shortcode'', (case shortcode (validateEnvVariables env) of
                                  None \<Rightarrow> JNull | Some c \<Rightarrow> JStr c)),
               (''setupInstructions'', JStr ''See MPESA_SETUP.md for detailed instructions'')])"
  using assms unset_not_valid [of v env]
  by (simp add: test_connection_def stkpush_def config_status_route_def Let_def missing_eq)

theorem unset_credentials_no_network_witness:
  "test_connection (example_env(''MPESA_PASSKEY'' := None)) example_io initial_world =
     (Responded 500 (JObj
        [(''success'', JBool False),
         (''message'', JStr ''M-Pesa credentials not configured''),
         (''missingVariables'', JArr [JStr ''MPESA_PASSKEY'']),
         (''warnings'', JArr [JStr ''MPESA_PASSKEY is still set to default placeholder value''])]),
      initial_world)
   \<and> stkpush example_engine (example_env(''MPESA_PASSKEY'' := None)) example_io
        (example_push ''0712345678'') initial_world =
     (Responded 500 (JObj
        [(''error'', JStr ''M-Pesa configuration is incomplete''),
         (''message'', JStr ''Please configure your M-Pesa credentials in the .env file''),
         (''missingVariables'', JArr [JStr ''MPESA_PASSKEY'']),
         (''warnings'', JArr [JStr ''MPESA_PASSKEY is still set to default placeholder value'']),
         (''setupGuide'', JStr ''See MPESA_SETUP.md for detailed instructions'')]),
      initial_world)"
  using unset_credentials_no_network [where v = "''MPESA_PASSKEY''"
      and env = "example_env(''MPESA_PASSKEY'' := None)" and io = example_io and w = initial_world
      and db = example_engine and body = "example_push ''0712345678''"]
  by (simp add: required_def env_truthy_def example_env_def validateEnvVariables_def)

subsection \<open>Token cache\<close>

text \<open>Without a usable cache entry: no request when a credential is missing, else exactly
  the one token request, whatever the provider answers.\<close>

lemma getAccessToken_no_credentials:
  assumes "\<not> cache_valid io w"
    and "\<not> env_truthy (consumerKey cfg) \<or> \<not> env_truthy (consumerSecret cfg)"
  shows "getAccessToken cfg io w =
     (Inl (Error ''Failed to get M-Pesa access token: M-Pesa credentials not configured''), w)"
  using assms by (auto simp: getAccessToken_def token_error_def js_opt_def js_or_def)

lemma getAccessToken_miss_effects:
  assumes "\<not> cache_valid io w" "env_truthy (consumerKey cfg)" "env_truthy (consumerSecret cfg)"
  shows "effects (snd (getAccessToken cfg io w)) = effects w @ [AuthGet]"
  using assms by (simp add: getAccessToken_def Let_def split: sum.splits)



subsection \<open>The callback's acknowledgment\<close>

text \<open>
  When the request has a body, POST /callback answers \<open>{ResultCode: 0, ResultDesc:
  'Success'}\<close> whatever the payload is: one without the envelope, one that is processed,
  one whose processing throws inside the \<open>try\<close> block (here on a metadata list that holds
  \<open>null\<close>).
\<close>

lemma callback_acknowledges:
  assumes "\<not> nullish body"
  shows "fst (callback db io body w) =
           Responded 200 (JObj [(''ResultCode'', JNum 0), (''ResultDesc'', JStr ''Success'')])"
  using assms by (simp add: callback_def js_destructure_defined success_ack_def split: sum.splits)

lemma callback_acknowledges_thrown:
  "callback_try example_engine example_io (js_prop malformed_callback ''Body'') pushed_world =
     Inl (TypeError ''Cannot read properties of null (reading 'Name')'')
   \<and> fst (callback example_engine example_io malformed_callback pushed_world) =
       Responded 200 (JObj [(''ResultCode'', JNum 0), (''ResultDesc'', JStr ''Success'')])"
  by (simp add: callback_def success_ack_def malformed_callback_def callback_try_def js_or_def
      js_opt_def js_get_def js_destructure_def js_typename_def quoted_def)

text \<open>
  C4. POST /callback is to answer every request with \<open>{ResultCode: 0, ResultDesc:
  'Success'}\<close>. For a request that arrives without a parsed body (\<open>req.body\<close> is
  \<open>undefined\<close>) it does not: \<open>const { Body } = req.body\<close> stands before the \<open>try\<close> block, the
  TypeError it throws is caught by neither branch, and the handler's promise rejects
  without a response. The state is left as it was.
\<close>

theorem callback_missing_body:
  "callback db io JUndefined w =
     (Rejected (TypeError ''Cannot destructure property 'Body' of 'req.body' as it is undefined.''), w)"
  by (simp add: callback_def js_destructure_def js_typename_def quoted_def)

subsection \<open>What a callback does to the table\<close>

lemma callback_update_no_match:
  "\<forall>r\<in>set rows. \<not> sql_match db (merchant_request_id r) m \<Longrightarrow>
   callback_update db rc d rcpt m t rows = rows"
  by (simp add: callback_update_def map_idI)

text \<open>A run of the \<open>try\<close> block that does not throw has applied the UPDATE with the
  values read from the envelope, or has found no envelope and done nothing.\<close>

lemma callback_try_transactions:
  "callback_try db io Body w = Inr w' \<Longrightarrow>
   transactions w' =
     (if truthy Body \<and> truthy (js_prop Body ''stkCallback'')
      then callback_update db (js_prop (js_prop Body ''stkCallback'') ''ResultCode'')
             (js_prop (js_prop Body ''stkCallback'') ''ResultDesc'')
             (case find_value ''MpesaReceiptNumber''
                     (case js_or (js_opt (js_prop (js_prop Body ''stkCallback'') ''CallbackMetadata'') ''Item'') (JArr [])
                      of JArr items \<Rightarrow> items | _ \<Rightarrow> [])
              of Inr v \<Rightarrow> v | Inl e \<Rightarrow> JUndefined)
             (js_prop (js_prop Body ''stkCallback'') ''MerchantRequestID'')
             (current_timestamp io) (transactions w)
      else transactions w)"
  by (auto simp: callback_try_def Let_def split: if_splits jsval.splits sum.splits option.splits)

text \<open>Whether the block throws depends on the payload alone.\<close>

lemma callback_try_error_indep:
  "callback_try db io Body w = Inl e \<Longrightarrow> callback_try db io' Body w' = Inl e"
  by (auto simp: callback_try_def Let_def split: if_splits jsval.splits sum.splits option.splits)

lemma callback_transactions_cases:
  "(\<forall>io w. transactions (snd (callback db io body w)) = transactions w)
 \<or> (\<exists>rc d rcpt m. \<forall>io w. transactions (snd (callback db io body w)) =
        callback_update db rc d rcpt m (current_timestamp io) (transactions w))"
proof (cases "nullish body")
  case True
  then show ?thesis by (simp add: callback_def js_destructure_def)
next
  case nb: False
  let ?B = "js_prop body ''Body''"
  have g: "js_destructure body ''Body'' = Inr ?B" using nb by (rule js_destructure_defined)
  show ?thesis
  proof (cases "\<exists>io w e. callback_try db io ?B w = Inl e")
    case True
    then obtain io0 w0 e where "callback_try db io0 ?B w0 = Inl e" by blast
    then have "\<And>io w. callback_try db io ?B w = Inl e" by (rule callback_try_error_indep)
    then show ?thesis by (simp add: callback_def g)
  next
    case False
    then have ok: "\<And>io w. \<exists>w'. callback_try db io ?B w = Inr w'"
      by (metis sum.exhaust)
    show ?thesis
    proof (cases "truthy ?B \<and> truthy (js_prop ?B ''stkCallback'')")
      case c: True
      have "\<And>io w. transactions (snd (callback db io body w)) =
          callback_update db (js_prop (js_prop ?B ''stkCallback'') ''ResultCode'')
             (js_prop (js_prop ?B ''stkCallback'') ''ResultDesc'')
             (case find_value ''MpesaReceiptNumber''
                     (case js_or (js_opt (js_prop (js_prop ?B ''stkCallback'') ''CallbackMetadata'') ''Item'') (JArr [])
                      of JArr items \<Rightarrow> items | _ \<Rightarrow> [])
              of Inr v \<Rightarrow> v | Inl e \<Rightarrow> JUndefined)
             (js_prop (js_prop ?B ''stkCallback'') ''MerchantRequestID'')
             (current_timestamp io) (transactions w)"
      proof -
        fix io w
        from ok obtain w' where w': "callback_try db io ?B w = Inr w'" by blast
        from callback_try_transactions [OF w'] c w' show "?thesis io w"
          by (simp add: callback_def g)
      qed
      then show ?thesis by blast
    next
      case c: False
      have "\<And>io w. transactions (snd (callback db io body w)) = transactions w"
      proof -
        fix io w
        from ok obtain w' where w': "callback_try db io ?B w = Inr w'" by blast
        from callback_try_transactions [OF w'] c w' show "?thesis io w"
          by (simp add: callback_def g)
      qed
      then show ?thesis by blast
    qed
  qed
qed

text \<open>
  When the request has a body, a callback whose \<open>MerchantRequestID\<close> matches no stored
  row is answered with the acknowledgment and leaves the table as it was. The unknown
  identifier raises nothing: an exception inside the \<open>try\<close> block comes from the payload
  alone, and is raised on every table.
\<close>

lemma callback_unknown_id_present:
  assumes body: "\<not> nullish body"
    and unknown: "\<forall>r\<in>set (transactions w).
        \<not> sql_match db (merchant_request_id r)
            (js_prop (js_prop (js_prop body ''Body'') ''stkCallback'') ''MerchantRequestID'')"
  shows "fst (callback db io body w) =
           Responded 200 (JObj [(''ResultCode'', JNum 0), (''ResultDesc'', JStr ''Success'')])
       \<and> transactions (snd (callback db io body w)) = transactions w
       \<and> (callback_try db io (js_prop body ''Body'') w = Inl e \<longrightarrow>
            callback_try db io' (js_prop body ''Body'') w' = Inl e)"
proof -
  have g: "js_destructure body ''Body'' = Inr (js_prop body ''Body'')"
    using body by (rule js_destructure_defined)
  have indep: "callback_try db io (js_prop body ''Body'') w = Inl e \<longrightarrow>
            callback_try db io' (js_prop body ''Body'') w' = Inl e"
    using callback_try_error_indep by blast
  show ?thesis
  proof (cases "callback_try db io (js_prop body ''Body'') w")
    case (Inl e)
    then show ?thesis using indep by (simp add: callback_def g success_ack_def)
  next
    case (Inr w')
    have "transactions w' = transactions w"
      using callback_try_transactions [OF Inr] callback_update_no_match [OF unknown]
      by (simp split: if_splits)
    then show ?thesis using Inr by (simp add: callback_def g success_ack_def)
  qed
qed

lemma callback_unknown_id_example:
  "(\<exists>w'. callback_try example_engine example_io (js_prop (example_callback ''m2'' 0) ''Body'') pushed_world = Inr w')
 \<and> fst (callback example_engine example_io (example_callback ''m2'' 0) pushed_world) =
      Responded 200 (JObj [(''ResultCode'', JNum 0), (''ResultDesc'', JStr ''Success'')])
 \<and> transactions (snd (callback example_engine example_io (example_callback ''m2'' 0) pushed_world)) =
      transactions pushed_world"
  by (simp add: callback_def success_ack_def example_callback_def pushed_world_eq sql_match_def
      example_engine_def callback_try_def js_or_def js_opt_def js_get_def js_destructure_def
      js_typename_def quoted_def select_transaction_def callback_update_def Let_def)


subsection \<open>One mapping on both paths\<close>

text \<open>What the poll does to the table: nothing, or its UPDATE.\<close>

lemma stkquery_transactions_cases:
  "transactions (snd (stkquery db env io body w)) = transactions w
 \<or> (\<exists>rc d m. transactions (snd (stkquery db env io body w)) =
        query_update db rc d m (current_timestamp io) (transactions w))"
proof -
  obtain r w1 where g: "getAccessToken (MPESA_CONFIG env) io w = (r, w1)"
    by (cases "getAccessToken (MPESA_CONFIG env) io w")
  have t: "transactions w1 = transactions w"
    using getAccessToken_transactions [of "MPESA_CONFIG env" io w] g by simp
  show ?thesis
    by (auto simp: stkquery_def stkquery_try_def Let_def g t split: sum.splits if_splits)
qed

text \<open>A poll that is answered with success and was given a merchant request
  identifier has applied its UPDATE with the result code of the provider's reply.\<close>

lemma stkquery_try_transactions:
  assumes "stkquery_try db env io checkoutRequestID merchantRequestID w = (Responded 200 j, w')"
    and "api_reply io = Inr queryResponse"
  shows "transactions w' =
     (if truthy merchantRequestID
      then query_update db (js_prop queryResponse ''ResultCode'') (js_prop queryResponse ''ResultDesc'')
             merchantRequestID (current_timestamp io) (transactions w)
      else transactions w)"
proof -
  obtain r w1 where g: "getAccessToken (MPESA_CONFIG env) io w = (r, w1)"
    by (cases "getAccessToken (MPESA_CONFIG env) io w")
  have t: "transactions w1 = transactions w"
    using getAccessToken_transactions [of "MPESA_CONFIG env" io w] g by simp
  show ?thesis
    using assms
    by (auto simp: stkquery_try_def stkquery_catch_def Let_def g t split: sum.splits if_splits)
qed

text \<open>The two UPDATEs write the same status.\<close>

lemma update_status_agree:
  "map status (callback_update db resultCode desc1 receipt merchantRequestID t1 rows) =
   map status (query_update db resultCode desc2 merchantRequestID t2 rows)"
  "i < length rows \<Longrightarrow>
   status (callback_update db resultCode desc1 receipt merchantRequestID t1 rows ! i) =
     (if sql_match db (merchant_request_id (rows ! i)) merchantRequestID
      then (if resultCode = JNum 0 then ''completed'' else ''failed'')
      else status (rows ! i))"
  by (simp_all add: callback_update_def query_update_def)

text \<open>When the two routes reach their UPDATE.\<close>

lemma truthy_prop_defined: "truthy (js_prop v k) \<Longrightarrow> truthy v \<and> \<not> nullish v"
  by (cases v) auto

lemma find_value_defined:
  "list_all (\<lambda>item. \<not> nullish item) items \<Longrightarrow> \<exists>v. find_value name items = Inr v"
  by (induction items) (auto simp: js_get_def)

lemma callback_transactions_envelope:
  assumes envelope: "js_prop (js_prop body ''Body'') ''stkCallback'' = cb" "truthy cb"
    and metadata: "js_or (js_opt (js_prop cb ''CallbackMetadata'') ''Item'') (JArr []) = JArr items"
      "list_all (\<lambda>item. \<not> nullish item) items"
  shows "\<exists>receipt. transactions (snd (callback db io body w)) =
           callback_update db (js_prop cb ''ResultCode'') (js_prop cb ''ResultDesc'') receipt
             (js_prop cb ''MerchantRequestID'') (current_timestamp io) (transactions w)"
proof -
  let ?B = "js_prop body ''Body''"
  have B: "truthy ?B" "\<not> nullish ?B"
    using truthy_prop_defined [of ?B "''stkCallback''"] envelope by simp_all
  have "?B \<noteq> JUndefined" using B by auto
  then have nb: "\<not> nullish body" by (cases body) auto
  have g: "js_destructure body ''Body'' = Inr ?B" using nb by (rule js_destructure_defined)
  obtain v1 v2 v3 v4 where f:
    "find_value ''Amount'' items = Inr v1" "find_value ''MpesaReceiptNumber'' items = Inr v2"
    "find_value ''TransactionDate'' items = Inr v3" "find_value ''PhoneNumber'' items = Inr v4"
    using find_value_defined [OF metadata(2)] by metis
  have "\<exists>w'. callback_try db io ?B w = Inr w'"
    using B envelope metadata(1) f
    by (simp add: callback_try_def Let_def split: option.splits)
  then obtain w' where w': "callback_try db io ?B w = Inr w'" by blast
  have "transactions w' =
      callback_update db (js_prop cb ''ResultCode'') (js_prop cb ''ResultDesc'') v2
        (js_prop cb ''MerchantRequestID'') (current_timestamp io) (transactions w)"
    using callback_try_transactions [OF w'] B envelope metadata(1) f by simp
  then show ?thesis using w' by (auto simp: callback_def g)
qed

lemma valid_credentials:
  assumes "valid (validateEnvVariables env)"
  shows "env_truthy (consumerKey (MPESA_CONFIG env))" "env_truthy (consumerSecret (MPESA_CONFIG env))"
proof -
  have "filter (\<lambda>v. \<not> env_truthy (env v)) required = []"
    using assms by (simp add: validateEnvVariables_def Let_def)
  then have "\<forall>v\<in>set required. env_truthy (env v)" by (simp add: filter_empty_conv)
  then show "env_truthy (consumerKey (MPESA_CONFIG env))"
    "env_truthy (consumerSecret (MPESA_CONFIG env))"
    by (simp_all add: required_def MPESA_CONFIG_def)
qed

lemma getAccessToken_succeeds:
  assumes "env_truthy (consumerKey cfg)" "env_truthy (consumerSecret cfg)"
    and "cache_valid io w \<or> (auth_reply io = Inr data \<and> \<not> nullish data)"
  shows "\<exists>token w1. getAccessToken cfg io w = (Inr token, w1) \<and> transactions w1 = transactions w"
  using assms by (auto simp: getAccessToken_def js_get_def Let_def)

lemma stkquery_transactions_reply:
  assumes config: "valid (validateEnvVariables env)"
    and checkout: "truthy (js_prop body ''checkoutRequestID'')"
    and m: "js_prop body ''merchantRequestID'' = m" "truthy m"
    and token: "cache_valid io w \<or> (auth_reply io = Inr data \<and> \<not> nullish data)"
    and reply: "api_reply io = Inr q" "\<not> nullish q"
  shows "transactions (snd (stkquery db env io body w)) =
           query_update db (js_prop q ''ResultCode'') (js_prop q ''ResultDesc'') m
             (current_timestamp io) (transactions w)"
proof -
  have nb: "\<not> nullish body" using truthy_prop_defined [OF checkout] by simp
  have g: "js_destructure body ''checkoutRequestID'' = Inr (js_prop body ''checkoutRequestID'')"
    using nb by (rule js_destructure_defined)
  obtain token w1 where t: "getAccessToken (MPESA_CONFIG env) io w = (Inr token, w1)"
    "transactions w1 = transactions w"
    using getAccessToken_succeeds [OF valid_credentials [OF config] token] by blast
  show ?thesis
    using config checkout m reply t
    by (simp add: stkquery_def stkquery_try_def g js_get_defined Let_def)
qed

text \<open>
  C5. For every result code, a callback that is processed and a poll that gets the
  provider's reply, both for the merchant request \<open>m\<close> and with that result code, leave
  the same status in every row of the table: in a row that matches \<open>m\<close>, \<open>completed\<close>
  when the code is the number 0 (\<open>=== 0\<close>) and \<open>failed\<close> for any other code; in the other
  rows the status they had.
\<close>

theorem callback_poll_same_status:
  assumes envelope: "js_prop (js_prop cbody ''Body'') ''stkCallback'' = cb" "truthy cb"
    and metadata: "js_or (js_opt (js_prop cb ''CallbackMetadata'') ''Item'') (JArr []) = JArr items"
      "list_all (\<lambda>item. \<not> nullish item) items"
    and cb_id: "js_prop cb ''MerchantRequestID'' = m"
    and cb_code: "js_prop cb ''ResultCode'' = rc"
    and config: "valid (validateEnvVariables env)"
    and checkout: "truthy (js_prop qbody ''checkoutRequestID'')"
    and q_id: "js_prop qbody ''merchantRequestID'' = m" "truthy m"
    and token: "cache_valid io2 w \<or> (auth_reply io2 = Inr data \<and> \<not> nullish data)"
    and reply: "api_reply io2 = Inr q" "\<not> nullish q"
    and q_code: "js_prop q ''ResultCode'' = rc"
  shows "map status (transactions (snd (callback db io1 cbody w))) =
         map status (transactions (snd (stkquery db env io2 qbody w)))
     \<and> (\<forall>i < length (transactions w).
           status (transactions (snd (callback db io1 cbody w)) ! i) =
             (if sql_match db (merchant_request_id (transactions w ! i)) m
              then (if rc = JNum 0 then ''completed'' else ''failed'')
              else status (transactions w ! i))
         \<and> status (transactions (snd (stkquery db env io2 qbody w)) ! i) =
             (if sql_match db (merchant_request_id (transactions w ! i)) m
              then (if rc = JNum 0 then ''completed'' else ''failed'')
              else status (transactions w ! i)))"
proof -
  obtain receipt where c: "transactions (snd (callback db io1 cbody w)) =
      callback_update db rc (js_prop cb ''ResultDesc'') receipt m (current_timestamp io1) (transactions w)"
    using callback_transactions_envelope [OF envelope metadata, of db io1 w] cb_id cb_code by auto
  have p: "transactions (snd (stkquery db env io2 qbody w)) =
      query_update db rc (js_prop q ''ResultDesc'') m (current_timestamp io2) (transactions w)"
    using stkquery_transactions_reply [OF config checkout q_id token reply, of db] q_code by simp
  have eq: "map status (transactions (snd (callback db io1 cbody w))) =
         map status (transactions (snd (stkquery db env io2 qbody w)))"
    by (simp only: c p update_status_agree(1))
  have cb_status: "\<forall>i < length (transactions w).
      status (transactions (snd (callback db io1 cbody w)) ! i) =
        (if sql_match db (merchant_request_id (transactions w ! i)) m
         then (if rc = JNum 0 then ''completed'' else ''failed'')
         else status (transactions w ! i))"
    by (simp add: c callback_update_def)
  have len: "length (transactions (snd (callback db io1 cbody w))) = length (transactions w)"
    by (simp add: c callback_update_def)
  have len2: "length (transactions (snd (stkquery db env io2 qbody w))) = length (transactions w)"
    by (simp add: p query_update_def)
  have q_status: "\<forall>i < length (transactions w).
      status (transactions (snd (stkquery db env io2 qbody w)) ! i) =
        (if sql_match db (merchant_request_id (transactions w ! i)) m
         then (if rc = JNum 0 then ''completed'' else ''failed'')
         else status (transactions w ! i))"
  proof (intro allI impI)
    fix i assume i: "i < length (transactions w)"
    have "status (transactions (snd (stkquery db env io2 qbody w)) ! i) =
          map status (transactions (snd (stkquery db env io2 qbody w))) ! i"
      using i len2 by simp
    also have "\<dots> = map status (transactions (snd (callback db io1 cbody w))) ! i"
      by (simp only: eq)
    also have "\<dots> = status (transactions (snd (callback db io1 cbody w)) ! i)"
      using i len by simp
    finally show "status (transactions (snd (stkquery db env io2 qbody w)) ! i) =
        (if sql_match db (merchant_request_id (transactions w ! i)) m
         then (if rc = JNum 0 then ''completed'' else ''failed'')
         else status (transactions w ! i))"
      using cb_status i by simp
  qed
  from eq cb_status q_status show ?thesis by simp
qed

theorem callback_poll_same_status_witness:
  "map status (transactions (snd (callback example_engine (example_io\<lparr>current_timestamp := 5\<rparr>)
      (example_callback ''m1'' 1032) pushed_world))) = [''failed'']
 \<and> map status (transactions (snd (stkquery example_engine example_env example_query_io example_query
      pushed_world))) = [''failed'']"
proof -
  have c: "map status (transactions (snd (callback example_engine (example_io\<lparr>current_timestamp := 5\<rparr>)
      (example_callback ''m1'' 1032) pushed_world))) = [''failed'']"
    by (simp add: pushed_world_eq callback_def callback_try_def example_callback_def js_get_def
        js_destructure_def js_or_def js_opt_def callback_update_def sql_match_def example_engine_def
        select_transaction_def Let_def)
  have "map status (transactions (snd (callback example_engine (example_io\<lparr>current_timestamp := 5\<rparr>)
      (example_callback ''m1'' 1032) pushed_world))) =
      map status (transactions (snd (stkquery example_engine example_env example_query_io example_query
      pushed_world)))"
    using callback_poll_same_status [where cbody = "example_callback ''m1'' 1032"
        and cb = "js_prop (js_prop (example_callback ''m1'' 1032) ''Body'') ''stkCallback''"
        and items = "[JObj [(''Name'', JStr ''Amount''), (''Value'', JNum 50)],
                      JObj [(''Name'', JStr ''MpesaReceiptNumber''), (''Value'', JStr ''ABC123'')]]"
        and m = "JStr ''m1''" and rc = "JNum 1032" and env = example_env and qbody = example_query
        and ?io2.0 = example_query_io and w = pushed_world
        and q = "JObj [(''CheckoutRequestID'', JStr ''c1''), (''ResultCode'', JNum 1032),
                       (''ResultDesc'', JStr ''Request cancelled by user'')]"
        and db = example_engine and ?io1.0 = "example_io\<lparr>current_timestamp := 5\<rparr>"]
      example_env_valid
    by (simp add: example_callback_def example_query_def example_query_io_def js_or_def js_opt_def
        cache_valid_def pushed_world_eq)
  with c show ?thesis by simp
qed

subsection \<open>The status of a row\<close>

lemma status_same:
  "list_all2 (\<lambda>r r'. status r' = status r \<or> status r' = ''completed'' \<or> status r' = ''failed'') rows rows"
  by (simp add: list_all2_same)

lemma status_update_cases:
  "list_all2 (\<lambda>r r'. status r' = status r \<or> status r' = ''completed'' \<or> status r' = ''failed'')
     rows (callback_update db rc d rcpt m t rows)"
  "list_all2 (\<lambda>r r'. status r' = status r \<or> status r' = ''completed'' \<or> status r' = ''failed'')
     rows (query_update db rc d m t rows)"
  by (simp_all add: callback_update_def query_update_def list_all2_map2 list_all2_same)

lemma stkpush_transactions_cases:
  "transactions (snd (stkpush db env io body w)) = transactions w
 \<or> (\<exists>m c p a b pr. transactions (snd (stkpush db env io body w)) =
        insert_transaction db m c p a b pr (current_timestamp io) (transactions w)
        \<and> validPhoneFormat p)"
proof -
  obtain r w1 where g: "getAccessToken (MPESA_CONFIG env) io w = (r, w1)"
    by (cases "getAccessToken (MPESA_CONFIG env) io w")
  have t: "transactions w1 = transactions w"
    using getAccessToken_transactions [of "MPESA_CONFIG env" io w] g by simp
  show ?thesis
    by (auto simp: stkpush_def stkpush_try_def Let_def g t split: sum.splits if_splits jsval.splits) blast+
qed

lemma insert_transaction_cases:
  "insert_transaction db m c p a b pr t rows = rows
 \<or> (\<exists>r. insert_transaction db m c p a b pr t rows = rows @ [r] \<and> status r = ''pending'' \<and> phone r = p
        \<and> completed_at r = None)"
  by (simp add: insert_transaction_def)

lemma stkpush_status_step:
  "\<forall>r \<in> set (transactions (snd (stkpush db env io body w))).
      r \<in> set (transactions w) \<or> status r = ''pending''"
  using stkpush_transactions_cases [of db env io body w]
proof
  assume "transactions (snd (stkpush db env io body w)) = transactions w"
  then show ?thesis by simp
next
  assume "\<exists>m c p a b pr. transactions (snd (stkpush db env io body w)) =
      insert_transaction db m c p a b pr (current_timestamp io) (transactions w) \<and> validPhoneFormat p"
  then obtain m c p a b pr where e: "transactions (snd (stkpush db env io body w)) =
      insert_transaction db m c p a b pr (current_timestamp io) (transactions w)" by blast
  show ?thesis
    using insert_transaction_cases [of db m c p a b pr "current_timestamp io" "transactions w"]
    by (auto simp: e)
qed

lemma callback_status_step:
  "list_all2 (\<lambda>r r'. status r' = status r \<or> status r' = ''completed'' \<or> status r' = ''failed'')
     (transactions w) (transactions (snd (callback db io body w)))"
  using callback_transactions_cases [of db body]
proof
  assume a: "\<forall>io w. transactions (snd (callback db io body w)) = transactions w"
  show ?thesis by (simp add: a status_same)
next
  assume "\<exists>rc d rcpt m. \<forall>io w. transactions (snd (callback db io body w)) =
      callback_update db rc d rcpt m (current_timestamp io) (transactions w)"
  then obtain rc d rcpt m where a: "\<And>io w. transactions (snd (callback db io body w)) =
      callback_update db rc d rcpt m (current_timestamp io) (transactions w)" by blast
  show ?thesis by (simp only: a status_update_cases(1))
qed

lemma stkquery_status_step:
  "list_all2 (\<lambda>r r'. status r' = status r \<or> status r' = ''completed'' \<or> status r' = ''failed'')
     (transactions w) (transactions (snd (stkquery db env io body w)))"
  using stkquery_transactions_cases [of db env io body w]
proof
  assume a: "transactions (snd (stkquery db env io body w)) = transactions w"
  show ?thesis by (simp add: a status_same)
next
  assume "\<exists>rc d m. transactions (snd (stkquery db env io body w)) =
      query_update db rc d m (current_timestamp io) (transactions w)"
  then obtain rc d m where a: "transactions (snd (stkquery db env io body w)) =
      query_update db rc d m (current_timestamp io) (transactions w)" by blast
  show ?thesis by (simp only: a status_update_cases(2))
qed

lemma three_statuses_step:
  assumes rel: "list_all2 (\<lambda>r r'. status r' = status r \<or> status r' = ''completed'' \<or> status r' = ''failed'')
                  rows rows'"
    and old: "\<forall>r\<in>set rows. status r = ''pending'' \<or> status r = ''completed'' \<or> status r = ''failed''"
  shows "\<forall>r\<in>set rows'. status r = ''pending'' \<or> status r = ''completed'' \<or> status r = ''failed''"
proof
  fix r' assume "r' \<in> set rows'"
  then obtain i where i: "i < length rows'" "rows' ! i = r'" by (auto simp: in_set_conv_nth)
  have len: "length rows = length rows'" using rel by (rule list_all2_lengthD)
  have step: "status r' = status (rows ! i) \<or> status r' = ''completed'' \<or> status r' = ''failed''"
    using list_all2_nthD2 [OF rel i(1)] i(2) by simp
  have "rows ! i \<in> set rows" using i(1) len by simp
  then have "status (rows ! i) = ''pending'' \<or> status (rows ! i) = ''completed'' \<or> status (rows ! i) = ''failed''"
    using old by blast
  with step show "status r' = ''pending'' \<or> status r' = ''completed'' \<or> status r' = ''failed''"
    by auto
qed

text \<open>In every state the routes can reach, the status of a row is one of the three.\<close>

lemma reachable_status:
  "reachable db env w \<Longrightarrow>
   \<forall>r\<in>set (transactions w). status r = ''pending'' \<or> status r = ''completed'' \<or> status r = ''failed''"
proof (induction rule: reachable.induct)
  case start
  show ?case by (simp add: initial_world_def)
next
  case (test w io)
  from test.IH show ?case by (simp add: test_connection_transactions)
next
  case (push w io body)
  show ?case using stkpush_status_step [of db env io body w] push.IH by blast
next
  case (poll w io body)
  show ?case by (rule three_statuses_step [OF stkquery_status_step poll.IH])
next
  case (notify w io body)
  show ?case by (rule three_statuses_step [OF callback_status_step notify.IH])
qed




subsection \<open>The same callback twice\<close>

lemma callback_update_twice:
  "callback_update db rc d rcpt m t2 (callback_update db rc d rcpt m t1 rows) =
   callback_update db rc d rcpt m t2 rows"
  by (simp add: callback_update_def)

lemma callback_update_fields:
  "map status (callback_update db rc d rcpt m t2 rows) = map status (callback_update db rc d rcpt m t1 rows)"
  "map result_code (callback_update db rc d rcpt m t2 rows) = map result_code (callback_update db rc d rcpt m t1 rows)"
  "map result_desc (callback_update db rc d rcpt m t2 rows) = map result_desc (callback_update db rc d rcpt m t1 rows)"
  "map mpesa_receipt (callback_update db rc d rcpt m t2 rows) = map mpesa_receipt (callback_update db rc d rcpt m t1 rows)"
  by (simp_all add: callback_update_def)

text \<open>
  C9, as the route has it. After the same callback payload has been applied a second
  time, every row has the status, result code, result description and receipt it had
  after the first time. The completion timestamp is that of the second application:
  the table is what one application at the later time gives, and is the table after
  the first application when both happen within one second of the clock.
\<close>

theorem callback_twice:
  "transactions (snd (callback db io2 body (snd (callback db io1 body w)))) =
     transactions (snd (callback db io2 body w))
 \<and> map status (transactions (snd (callback db io2 body (snd (callback db io1 body w))))) =
     map status (transactions (snd (callback db io1 body w)))
 \<and> map result_code (transactions (snd (callback db io2 body (snd (callback db io1 body w))))) =
     map result_code (transactions (snd (callback db io1 body w)))
 \<and> map result_desc (transactions (snd (callback db io2 body (snd (callback db io1 body w))))) =
     map result_desc (transactions (snd (callback db io1 body w)))
 \<and> map mpesa_receipt (transactions (snd (callback db io2 body (snd (callback db io1 body w))))) =
     map mpesa_receipt (transactions (snd (callback db io1 body w)))
 \<and> (current_timestamp io2 = current_timestamp io1 \<longrightarrow>
      transactions (snd (callback db io2 body (snd (callback db io1 body w)))) =
        transactions (snd (callback db io1 body w)))"
  using callback_transactions_cases [of db body]
proof
  assume a: "\<forall>io w. transactions (snd (callback db io body w)) = transactions w"
  show ?thesis by (simp add: a)
next
  assume "\<exists>rc d rcpt m. \<forall>io w. transactions (snd (callback db io body w)) =
        callback_update db rc d rcpt m (current_timestamp io) (transactions w)"
  then obtain rc d rcpt m where a: "\<And>io w. transactions (snd (callback db io body w)) =
        callback_update db rc d rcpt m (current_timestamp io) (transactions w)" by blast
  show ?thesis
    by (simp add: a callback_update_twice
        callback_update_fields [of db rc d rcpt m "current_timestamp io2" _ "current_timestamp io1"])
qed

theorem callback_twice_witness:
  "transactions (snd (callback example_engine (example_io\<lparr>current_timestamp := 5\<rparr>) (example_callback ''m1'' 0)
      completed_world)) = transactions completed_world
 \<and> map status (transactions (snd (callback example_engine (example_io\<lparr>current_timestamp := 9\<rparr>)
      (example_callback ''m1'' 0) completed_world))) = [''completed'']"
proof -
  note t5 = callback_twice [of example_engine "example_io\<lparr>current_timestamp := 5\<rparr>" "example_callback ''m1'' 0"
      "example_io\<lparr>current_timestamp := 5\<rparr>" pushed_world, folded completed_world_def]
  note t9 = callback_twice [of example_engine "example_io\<lparr>current_timestamp := 9\<rparr>" "example_callback ''m1'' 0"
      "example_io\<lparr>current_timestamp := 5\<rparr>" pushed_world, folded completed_world_def]
  from t5 have "transactions (snd (callback example_engine (example_io\<lparr>current_timestamp := 5\<rparr>)
      (example_callback ''m1'' 0) completed_world)) = transactions completed_world"
    by simp
  moreover from t9 have "map status (transactions (snd (callback example_engine (example_io\<lparr>current_timestamp := 9\<rparr>)
      (example_callback ''m1'' 0) completed_world))) = map status (transactions completed_world)"
    by blast
  ultimately show ?thesis by (simp add: completed_world_rows)
qed

text \<open>The completion timestamp of the scenario's row is second 5 after the callback, and
  second 9 after the same callback has arrived again at that time.\<close>

theorem callback_twice_timestamp:
  "map completed_at (transactions completed_world) = [Some 5]
 \<and> map completed_at (transactions (snd (callback example_engine (example_io\<lparr>current_timestamp := 9\<rparr>)
        (example_callback ''m1'' 0) completed_world))) = [Some 9]"
  by (simp add: completed_world_rows callback_def callback_try_def example_callback_def
      js_get_def js_destructure_def js_typename_def quoted_def js_or_def js_opt_def callback_update_def sql_match_def example_engine_def
      select_transaction_def Let_def)

subsection \<open>The phone number in the transaction history\<close>

lemma substring_0_6: "substring s 0 6 = take 6 s"
  by (cases "6 \<le> length s") (simp_all add: substring_def clamp_index_def Let_def min_def)

lemma substring_from_last2: "substring_from s (int (length s) - 2) = drop (length s - 2) s"
proof -
  have "nat (int (length s) - 2) = length s - 2" by arith
  then show ?thesis by (simp add: substring_from_def clamp_index_def)
qed

lemma star_not_digit: "\<not> digit CHR ''*''"
  by (simp add: digit_def)

lemma validPhoneFormat_digits: "validPhoneFormat p \<Longrightarrow> list_all digit p"
proof -
  assume v: "validPhoneFormat p"
  then have "p = ''254'' @ drop 3 p" by (metis append_take_drop_id validPhoneFormat_def)
  moreover have "list_all digit (''254'' @ drop 3 p)"
    using v by (simp add: validPhoneFormat_def digit_literals)
  ultimately show ?thesis by simp
qed

text \<open>Every stored phone has passed the format check: the push stores the normalised
  phone, and the UPDATEs leave the column alone.\<close>

lemma stkpush_phones:
  assumes "\<forall>r\<in>set (transactions w). validPhoneFormat (phone r)"
  shows "\<forall>r\<in>set (transactions (snd (stkpush db env io body w))). validPhoneFormat (phone r)"
  using stkpush_transactions_cases [of db env io body w]
proof
  assume "transactions (snd (stkpush db env io body w)) = transactions w"
  then show ?thesis using assms by simp
next
  assume "\<exists>m c p a b pr. transactions (snd (stkpush db env io body w)) =
      insert_transaction db m c p a b pr (current_timestamp io) (transactions w) \<and> validPhoneFormat p"
  then obtain m c p a b pr where e: "transactions (snd (stkpush db env io body w)) =
      insert_transaction db m c p a b pr (current_timestamp io) (transactions w)"
    and v: "validPhoneFormat p" by blast
  show ?thesis
    using insert_transaction_cases [of db m c p a b pr "current_timestamp io" "transactions w"] assms v
    by (auto simp: e)
qed

lemma callback_phones: "map phone (transactions (snd (callback db io body w))) = map phone (transactions w)"
  using callback_transactions_cases [of db body] by (auto simp: callback_update_def)

lemma stkquery_phones: "map phone (transactions (snd (stkquery db env io body w))) = map phone (transactions w)"
  using stkquery_transactions_cases [of db env io body w] by (auto simp: query_update_def)

lemma phones_of_map:
  assumes "map phone rows' = map phone rows" "\<forall>r\<in>set rows. validPhoneFormat (phone r)"
  shows "\<forall>r\<in>set rows'. validPhoneFormat (phone r)"
proof
  fix r assume "r \<in> set rows'"
  then have "phone r \<in> set (map phone rows')" by simp
  then have "phone r \<in> set (map phone rows)" using assms(1) by simp
  then show "validPhoneFormat (phone r)" using assms(2) by auto
qed

lemma reachable_phones:
  "reachable db env w \<Longrightarrow> \<forall>r\<in>set (transactions w). validPhoneFormat (phone r)"
proof (induction rule: reachable.induct)
  case start
  show ?case by (simp add: initial_world_def)
next
  case (test w io)
  from test.IH show ?case by (simp add: test_connection_transactions)
next
  case (push w io body)
  show ?case by (rule stkpush_phones [OF push.IH])
next
  case (poll w io body)
  show ?case by (rule phones_of_map [OF stkquery_phones poll.IH])
next
  case (notify w io body)
  show ?case by (rule phones_of_map [OF callback_phones notify.IH])
qed

lemma pushed_world_reachable: "reachable example_engine example_env pushed_world"
  unfolding pushed_world_def by (rule reachable.push [OF reachable.start])

text \<open>The \<open>phone\<close> of a row's JSON: the first six characters of the stored phone, then
  \<open>****\<close>, then its last two characters.\<close>

lemma transaction_json_phone:
  "js_prop (transaction_json r) ''phone'' =
     JStr (take 6 (phone r) @ ''****'' @ drop (length (phone r) - 2) (phone r))"
  by (simp add: transaction_json_def substring_0_6 substring_from_last2)

lemma masked_differs:
  assumes "list_all digit p"
  shows "take 6 p @ ''****'' @ drop (length p - 2) p \<noteq> p"
proof
  assume "take 6 p @ ''****'' @ drop (length p - 2) p = p"
  moreover have "CHR ''*'' \<in> set (take 6 p @ ''****'' @ drop (length p - 2) p)" by simp
  ultimately have "CHR ''*'' \<in> set p" by simp
  then show False using assms star_not_digit by (auto simp: list_all_iff)
qed

text \<open>
  C10. In every state the routes can reach, GET /transactions answers with the JSON of
  stored rows (the 50 most recent), and for each of them the \<open>phone\<close> of the JSON is the
  first six characters of the stored phone, then \<open>****\<close>, then its last two characters:
  digits 7 to 10 of the twelve are replaced, and the field is never the stored phone.
  When the query fails, the answer is the error 500 and holds no row.
\<close>

theorem transactions_phone_masked:
  assumes "reachable db env w"
  shows "(\<exists>rows. set rows \<subseteq> set (transactions w)
      \<and> get_transactions None w = Responded 200 (JArr (map transaction_json rows))
      \<and> (\<forall>r\<in>set rows.
            js_prop (transaction_json r) ''phone'' =
              JStr (take 6 (phone r) @ ''****'' @ drop (length (phone r) - 2) (phone r))
            \<and> length (phone r) = 12
            \<and> js_prop (transaction_json r) ''phone'' \<noteq> JStr (phone r)))
    \<and> get_transactions (Some error) w =
         Responded 500 (JObj [(''error'', JStr ''Failed to fetch transactions'')])"
proof
  show "\<exists>rows. set rows \<subseteq> set (transactions w)
      \<and> get_transactions None w = Responded 200 (JArr (map transaction_json rows))
      \<and> (\<forall>r\<in>set rows.
            js_prop (transaction_json r) ''phone'' =
              JStr (take 6 (phone r) @ ''****'' @ drop (length (phone r) - 2) (phone r))
            \<and> length (phone r) = 12
            \<and> js_prop (transaction_json r) ''phone'' \<noteq> JStr (phone r))"
  proof (intro exI conjI ballI)
    show sub: "set (select_recent (transactions w)) \<subseteq> set (transactions w)"
      using set_take_subset [of 50 "sort_key (\<lambda>r. - int (created_at r)) (transactions w)"]
      by (simp add: select_recent_def)
    show "get_transactions None w =
            Responded 200 (JArr (map transaction_json (select_recent (transactions w))))"
      by (simp add: get_transactions_def)
    fix r assume "r \<in> set (select_recent (transactions w))"
    then have "r \<in> set (transactions w)" using sub by blast
    then have v: "validPhoneFormat (phone r)" using reachable_phones [OF assms] by blast
    show "js_prop (transaction_json r) ''phone'' =
            JStr (take 6 (phone r) @ ''****'' @ drop (length (phone r) - 2) (phone r))"
      by (rule transaction_json_phone)
    show "length (phone r) = 12" using v by (simp add: validPhoneFormat_def)
    show "js_prop (transaction_json r) ''phone'' \<noteq> JStr (phone r)"
      using masked_differs [OF validPhoneFormat_digits [OF v]] by (simp add: transaction_json_phone)
  qed
  show "get_transactions (Some error) w =
         Responded 500 (JObj [(''error'', JStr ''Failed to fetch transactions'')])"
    by (simp add: get_transactions_def)
qed

theorem transactions_phone_masked_witness:
  "get_transactions None pushed_world =
     Responded 200 (JArr
       [JObj [(''id'', JNum 1), (''phone'', JStr ''254712****78''), (''amount'', JNum 50),
              (''branch'', JStr ''Nairobi''), (''product'', JStr ''Coke''),
              (''status'', JStr ''pending''), (''mpesaReceipt'', JNull),
              (''createdAt'', JNum 1), (''completedAt'', JNull)]])
 \<and> map phone (transactions pushed_world) = [''254712345678'']"
  using transactions_phone_masked [OF pushed_world_reachable]
  by (simp add: pushed_world_eq get_transactions_def select_recent_def transaction_json_def
      substring_def substring_from_def clamp_index_def)

end
